theory Spec2Isabelle
  imports Complex_Main "HOL-Library.Finite_Map" "HOL-Library.Char_ord" "HOL-Library.List_Lexorder"
begin

section \<open>Stock-Sense: confidence scoring and signal generation\<close>

text \<open>
  The two predictors of the repository are \<^verbatim>\<open>HybridEnsemblePredictor\<close>
  (\<^verbatim>\<open>Model/kse_hybrid_ensemble.py\<close>, the ensemble variant) and \<^verbatim>\<open>KSEStockPredictor\<close>
  (\<^verbatim>\<open>stockSense-model/kse_stock_model.py\<close>, the tabular-only variant). Where both classes
  have a method of the same name with a different body, the ensemble one keeps the name and
  the tabular one carries the suffix \<open>_tabular\<close>. Python floats are modelled as reals:
  the theorems below are about the decision structure and the exact arithmetic of the
  formulas, not about rounding in binary floating point.
\<close>

subsection \<open>Exceptions\<close>

datatype error =
    ValueError string
  | KeyError string
  | IndexError string
  | ZeroDivisionError

text \<open>
  \<^verbatim>\<open>str(e)\<close> of an exception, as \<^verbatim>\<open>predict_all\<close> stores it in the error record: the
  message the exception was raised with, and for a \<^verbatim>\<open>KeyError\<close> the quoted key.
\<close>

fun str_error :: "error \<Rightarrow> string" where
  "str_error (ValueError msg) = msg"
| "str_error (KeyError k) = [CHR 0x27] @ k @ [CHR 0x27]"
| "str_error (IndexError msg) = msg"
| "str_error ZeroDivisionError = ''float division by zero''"

text \<open>The decimal digits of a number, as \<^verbatim>\<open>str\<close> prints them in a message.\<close>

fun show_nat :: "nat \<Rightarrow> string" where
  "show_nat n =
    (if n < 10 then [char_of (48 + n)]
     else show_nat (n div 10) @ [char_of (48 + n mod 10)])"

declare show_nat.simps [simp del]

subsection \<open>Dictionaries of metrics\<close>

text \<open>\<^verbatim>\<open>d.get(key, default)\<close>.\<close>

definition dict_get :: "('k \<rightharpoonup> 'v) \<Rightarrow> 'k \<Rightarrow> 'v \<Rightarrow> 'v" where
  "dict_get d k dflt = (case d k of None \<Rightarrow> dflt | Some v \<Rightarrow> v)"

text \<open>\<^verbatim>\<open>d[key]\<close>, which raises \<^verbatim>\<open>KeyError\<close> on a missing key.\<close>

definition dict_item :: "(string \<rightharpoonup> 'v) \<Rightarrow> string \<Rightarrow> error + 'v" where
  "dict_item d k = (case d k of None \<Rightarrow> Inl (KeyError k) | Some v \<Rightarrow> Inr v)"

subsection \<open>Signals\<close>

text \<open>
  The fragments \<^verbatim>\<open>generate_signal\<close> appends to \<^verbatim>\<open>reasoning\<close>. The f-strings that
  format a number carry the number; the final \<^verbatim>\<open>' | '.join(reasoning)\<close> is the list itself.
\<close>

datatype reason =
    Upward real real
  | STRONG_BULLISH
  | RSI_overbought
  | RSI_elevated
  | Weak_bullish
  | Downward real real
  | STRONG_BEARISH
  | RSI_oversold
  | RSI_depressed
  | Weak_bearish
  | Neutral real
  | Bull_regime_wait_for_dips
  | Bear_regime_wait_for_bounces

record signal =
  action :: string
  confidence :: real
  reasoning :: "reason list"

text \<open>\<^verbatim>\<open>HybridEnsemblePredictor.generate_signal\<close>.\<close>

definition generate_signal :: "real \<Rightarrow> real \<Rightarrow> real \<Rightarrow> real \<Rightarrow> string \<Rightarrow> signal" where
  "generate_signal predicted_return conf rsi volatility regime =
    (let vol_pct = volatility * 100;
         buy_threshold = 1.2 + (vol_pct * 0.4);
         sell_threshold = - 1.2 - (vol_pct * 0.4);
         (act, sig_conf, rs) =
           (if predicted_return > buy_threshold then
              (if conf > 40 then
                 (if predicted_return > buy_threshold * 2 then
                    (if rsi < 75
                     then (''BUY'', min 95 (conf + 5),
                           [Upward predicted_return conf, STRONG_BULLISH])
                     else (''HOLD'', conf * 0.75,
                           [Upward predicted_return conf, STRONG_BULLISH, RSI_overbought]))
                  else
                    (if rsi < 65
                     then (''BUY'', conf, [Upward predicted_return conf])
                     else (''HOLD'', conf * 0.85,
                           [Upward predicted_return conf, RSI_elevated])))
               else (''HOLD'', conf, [Weak_bullish]))
            else if predicted_return < sell_threshold then
              (if conf > 40 then
                 (if predicted_return < sell_threshold * 2 then
                    (if rsi > 25
                     then (''SELL'', min 95 (conf + 5),
                           [Downward predicted_return conf, STRONG_BEARISH])
                     else (''HOLD'', conf * 0.75,
                           [Downward predicted_return conf, STRONG_BEARISH, RSI_oversold]))
                  else
                    (if rsi > 35
                     then (''SELL'', conf, [Downward predicted_return conf])
                     else (''HOLD'', conf * 0.85,
                           [Downward predicted_return conf, RSI_depressed])))
               else (''HOLD'', conf, [Weak_bearish]))
            else
              (''HOLD'', conf * 0.6,
               Neutral predicted_return #
                 (if regime = ''Bull'' then [Bull_regime_wait_for_dips]
                  else if regime = ''Bear'' then [Bear_regime_wait_for_bounces]
                  else [])))
     in \<lparr>action = act, confidence = max 15 sig_conf, reasoning = rs\<rparr>)"

text \<open>\<^verbatim>\<open>KSEStockPredictor.generate_signal\<close>: the same text with the confidence gate at 38.\<close>

definition generate_signal_tabular :: "real \<Rightarrow> real \<Rightarrow> real \<Rightarrow> real \<Rightarrow> string \<Rightarrow> signal" where
  "generate_signal_tabular predicted_return conf rsi volatility regime =
    (let vol_pct = volatility * 100;
         buy_threshold = 1.2 + (vol_pct * 0.4);
         sell_threshold = - 1.2 - (vol_pct * 0.4);
         (act, sig_conf, rs) =
           (if predicted_return > buy_threshold then
              (if conf > 38 then
                 (if predicted_return > buy_threshold * 2 then
                    (if rsi < 75
                     then (''BUY'', min 95 (conf + 5),
                           [Upward predicted_return conf, STRONG_BULLISH])
                     else (''HOLD'', conf * 0.75,
                           [Upward predicted_return conf, STRONG_BULLISH, RSI_overbought]))
                  else
                    (if rsi < 65
                     then (''BUY'', conf, [Upward predicted_return conf])
                     else (''HOLD'', conf * 0.85,
                           [Upward predicted_return conf, RSI_elevated])))
               else (''HOLD'', conf, [Weak_bullish]))
            else if predicted_return < sell_threshold then
              (if conf > 38 then
                 (if predicted_return < sell_threshold * 2 then
                    (if rsi > 25
                     then (''SELL'', min 95 (conf + 5),
                           [Downward predicted_return conf, STRONG_BEARISH])
                     else (''HOLD'', conf * 0.75,
                           [Downward predicted_return conf, STRONG_BEARISH, RSI_oversold]))
                  else
                    (if rsi > 35
                     then (''SELL'', conf, [Downward predicted_return conf])
                     else (''HOLD'', conf * 0.85,
                           [Downward predicted_return conf, RSI_depressed])))
               else (''HOLD'', conf, [Weak_bearish]))
            else
              (''HOLD'', conf * 0.6,
               Neutral predicted_return #
                 (if regime = ''Bull'' then [Bull_regime_wait_for_dips]
                  else if regime = ''Bear'' then [Bear_regime_wait_for_bounces]
                  else [])))
     in \<lparr>action = act, confidence = max 15 sig_conf, reasoning = rs\<rparr>)"

subsection \<open>Confidence\<close>

text \<open>\<^verbatim>\<open>HybridEnsemblePredictor.calculate_confidence_ensemble\<close>.\<close>

definition calculate_confidence_ensemble ::
  "string \<Rightarrow> real \<Rightarrow> real \<Rightarrow> real \<Rightarrow> string \<Rightarrow> real \<Rightarrow> (string \<rightharpoonup> real) \<Rightarrow> real" where
  "calculate_confidence_ensemble ticker predicted_return volatility rsi regime ensemble_spread metrics =
    (let lstm_r2 = dict_get metrics ''lstm_r2'' 0.15;
         lgb_r2 = dict_get metrics ''lgb_r2'' 0.18;
         xgb_r2 = dict_get metrics ''xgb_r2'' 0.17;
         avg_r2 = (lstm_r2 + lgb_r2 + xgb_r2) / 3;
         base_confidence =
           (if avg_r2 < 0 then 35
            else if avg_r2 < 0.1 then 45
            else if avg_r2 < 0.2 then 55
            else if avg_r2 < 0.3 then 65
            else min 85 (55 + (avg_r2 * 80)));
         agreement_boost = (1 - min ensemble_spread 1) * 20;
         c0 = base_confidence + agreement_boost;
         vol_penalty =
           (if volatility < 0.005 then 0
            else if volatility < 0.015 then - 2
            else if volatility < 0.03 then - 5
            else - 10);
         c1 = c0 + vol_penalty;
         c2 = (if regime = ''Bull'' then c1 + 2
               else if regime = ''Bear'' then c1 - 2
               else c1)
     in max 25 (min 95 c2))"

text \<open>
  \<^verbatim>\<open>KSEStockPredictor.calculate_confidence\<close>. It reads
  \<^verbatim>\<open>self.models[ticker]['metrics']['r2']\<close> and \<^verbatim>\<open>['mape']\<close>; the first argument is the
  \<^verbatim>\<open>metrics\<close> dictionary of each trained ticker.
\<close>

definition calculate_confidence ::
  "(string \<rightharpoonup> (string \<rightharpoonup> real)) \<Rightarrow> string \<Rightarrow> real \<Rightarrow> real \<Rightarrow> real \<Rightarrow> string \<Rightarrow> error + real" where
  "calculate_confidence model_metrics ticker predicted_return volatility rsi regime =
    (case model_metrics ticker of
       None \<Rightarrow> Inl (KeyError ticker)
     | Some metrics \<Rightarrow>
        (case dict_item metrics ''r2'' of
           Inl e \<Rightarrow> Inl e
         | Inr r2 \<Rightarrow>
            (case dict_item metrics ''mape'' of
               Inl e \<Rightarrow> Inl e
             | Inr mape \<Rightarrow>
                (let base_confidence =
                       (if r2 < 0 then 30
                        else if r2 < 0.05 then 38
                        else if r2 < 0.1 then 45
                        else if r2 < 0.15 then 52
                        else if r2 < 0.2 then 58
                        else if r2 < 0.3 then 65
                        else if r2 < 0.5 then 72
                        else min 90 (60 + (r2 * 80)));
                     mape_boost =
                       (if mape < 1 then 25
                        else if mape < 2 then 20
                        else if mape < 5 then 15
                        else if mape < 10 then 10
                        else if mape < 15 then 5
                        else if mape < 25 then 0
                        else - 10);
                     c0 = base_confidence + mape_boost;
                     regime_adjust =
                       (if regime = ''Bull'' then 3
                        else if regime = ''Bear'' then - 2
                        else 0);
                     c1 = c0 + regime_adjust;
                     vol_penalty =
                       (if volatility < 0.005 then 0
                        else if volatility < 0.015 then - 2
                        else if volatility < 0.03 then - 5
                        else if volatility < 0.05 then - 8
                        else - 15);
                     c2 = c1 + vol_penalty;
                     c3 = (if rsi > 80 \<or> rsi < 20 then c2 - 3 else c2);
                     mag_adjust =
                       (if \<bar>predicted_return\<bar> < 0.3 then 2
                        else if \<bar>predicted_return\<bar> < 2 then 1
                        else if \<bar>predicted_return\<bar> < 5 then 0
                        else if \<bar>predicted_return\<bar> < 10 then - 5
                        else - 15);
                     c4 = c3 + mag_adjust
                 in Inr (max 20 (min 95 c4))))))"

text \<open>
  The confidence stage as the specification words it: a base from the average
  R-squared, an agreement boost, a volatility penalty, a regime adjustment, and a clamp.
\<close>

definition base_confidence_spec :: "real \<Rightarrow> real" where
  "base_confidence_spec avg_r2 =
    (if avg_r2 < 0 then 35
     else if avg_r2 < 0.1 then 45
     else if avg_r2 < 0.2 then 55
     else if avg_r2 < 0.3 then 65
     else min 85 (55 + avg_r2 * 80))"

definition agreement_boost_spec :: "real \<Rightarrow> real" where
  "agreement_boost_spec spread = (1 - min spread 1) * 20"

definition volatility_penalty_spec :: "real \<Rightarrow> real" where
  "volatility_penalty_spec volatility =
    (if volatility < 0.005 then 0
     else if volatility < 0.015 then - 2
     else if volatility < 0.03 then - 5
     else - 10)"

definition regime_adjustment_spec :: "string \<Rightarrow> real" where
  "regime_adjustment_spec regime =
    (if regime = ''Bull'' then 2 else if regime = ''Bear'' then - 2 else 0)"

definition clamp_spec :: "real \<Rightarrow> real \<Rightarrow> real \<Rightarrow> real" where
  "clamp_spec lo hi x = (if x < lo then lo else if hi < x then hi else x)"

definition confidence_spec :: "real \<Rightarrow> real \<Rightarrow> real \<Rightarrow> string \<Rightarrow> real" where
  "confidence_spec avg_r2 spread volatility regime =
    clamp_spec 25 95
      (base_confidence_spec avg_r2 + agreement_boost_spec spread
        + volatility_penalty_spec volatility + regime_adjustment_spec regime)"

subsection \<open>Rounding\<close>

text \<open>
  Python's \<^verbatim>\<open>round(x, ndigits)\<close>: the nearest multiple of \<open>10 ^ - ndigits\<close>, a tie
  going to the even neighbour.
\<close>

definition round_half_even :: "real \<Rightarrow> int" where
  "round_half_even x =
    (let f = \<lfloor>x\<rfloor>; d = x - of_int f
     in if d < 1 / 2 then f
        else if 1 / 2 < d then f + 1
        else if even f then f else f + 1)"

definition py_round :: "real \<Rightarrow> nat \<Rightarrow> real" where
  "py_round x ndigits = of_int (round_half_even (x * 10 ^ ndigits)) / 10 ^ ndigits"

subsection \<open>Floating-point division\<close>

text \<open>
  Division of two Python floats raises \<^verbatim>\<open>ZeroDivisionError\<close> on a zero divisor.
  Division of NumPy or pandas values does not raise: a zero divisor gives an infinity or
  NaN. The model has no non-finite numbers, so that outcome is \<open>None\<close>.
\<close>

definition py_divide :: "real \<Rightarrow> real \<Rightarrow> error + real" where
  "py_divide a b = (if b = 0 then Inl ZeroDivisionError else Inr (a / b))"

definition np_divide :: "real \<Rightarrow> real \<Rightarrow> real option" where
  "np_divide a b = (if b = 0 then None else Some (a / b))"

subsection \<open>The predictor and its data\<close>

text \<open>One row of a ticker's history; \<open>Date\<close> counts days.\<close>

record bar =
  Date :: int
  Open :: real
  High :: real
  Low :: real
  Close :: real
  Volume :: real

text \<open>
  The columns of the last indicator row that \<^verbatim>\<open>predict\<close> reads, and the engine that
  yields them: \<open>latest_row\<close> is \<^verbatim>\<open>calculate_advanced_indicators(detect_market_regime(df)).iloc[-1]\<close>,
  and \<open>feature_frame\<close> is the table \<^verbatim>\<open>prepare_features\<close> builds before scaling (regime,
  indicators, target columns, \<^verbatim>\<open>dropna\<close>): the feature column names and the rows of
  feature values. Both are functions of the history alone and touch no attribute of the
  predictor. \<open>fit_standard_scaler\<close> is \<^verbatim>\<open>StandardScaler().fit\<close>.
\<close>

record indicator_row =
  RSI_14 :: real
  Volatility_20 :: real
  Regime :: string
  MACD_Diff :: real
  BB_20_Position :: real
  ADX :: real

record standard_scaler =
  transform :: "real list list \<Rightarrow> error + real list list"

record min_max_scaler =
  mm_transform :: "real \<Rightarrow> real"
  mm_inverse_transform :: "real \<Rightarrow> real"

record engine =
  latest_row :: "bar list \<Rightarrow> indicator_row"
  feature_frame :: "nat \<Rightarrow> bar list \<Rightarrow> string list \<times> real list list"
  fit_standard_scaler :: "real list list \<Rightarrow> standard_scaler"

text \<open>
  A trained bundle \<^verbatim>\<open>self.models[ticker]\<close>: the three sub-models as the functions their
  \<^verbatim>\<open>predict\<close> methods compute (a library error is a value), the weights and the metrics.
\<close>

record ensemble =
  lstm :: "real list \<Rightarrow> error + real"
  lgb :: "real list \<Rightarrow> error + real"
  xgb :: "real list \<Rightarrow> error + real"
  ensemble_weights :: "real list"
  metrics :: "string \<rightharpoonup> real"

text \<open>The attributes of \<^verbatim>\<open>HybridEnsemblePredictor\<close>.\<close>

record predictor =
  prediction_days :: nat
  lstm_sequence_length :: nat
  models :: "(string, ensemble) fmap"
  feature_cols :: "string list"
  data_dict :: "(string, bar list) fmap"
  scalers :: "(string, standard_scaler) fmap"
  lstm_scalers :: "(string, min_max_scaler) fmap"

text \<open>The prediction record; dates are day numbers, not formatted strings.\<close>

record technical_indicators =
  rsi_14 :: real
  volatility_pct :: real
  macd_diff :: real
  bb_position :: real
  market_regime :: string
  adx :: real

record model_predictions =
  mp_lstm :: real
  mp_lightgbm :: real
  mp_xgboost :: real
  mp_ensemble :: real

record model_metrics =
  mm_lstm_r2 :: real
  mm_lgb_r2 :: real
  mm_xgb_r2 :: real
  mm_lgb_mae :: real
  mm_xgb_mae :: real

record prediction =
  p_ticker :: string
  p_current_price :: real
  p_predicted_price :: real
  p_predicted_return :: real
  p_prediction_horizon_days :: nat
  p_current_date :: int
  p_prediction_date :: int
  p_signal :: string
  p_confidence :: real
  p_reasoning :: "reason list"
  p_technical_indicators :: technical_indicators
  p_model_predictions :: model_predictions
  p_model_metrics :: model_metrics
  p_ensemble_agreement :: real

text \<open>
  What a call returns when it does not raise: the record, or \<open>NonFinite\<close> when a NumPy
  division by zero has put an infinity or NaN into the figures.
\<close>

datatype 'r returned = Finite 'r | NonFinite

text \<open>\<^verbatim>\<open>xs[i]\<close> on a Python list.\<close>

definition list_item :: "'a list \<Rightarrow> nat \<Rightarrow> error + 'a" where
  "list_item xs i =
    (if i < length xs then Inr (xs ! i) else Inl (IndexError ''list index out of range''))"

text \<open>\<^verbatim>\<open>.tail(n)\<close>: the last \<open>n\<close> rows.\<close>

definition tail :: "nat \<Rightarrow> 'a list \<Rightarrow> 'a list" where
  "tail n xs = drop (length xs - n) xs"

text \<open>\<^verbatim>\<open>HybridEnsemblePredictor.prepare_features\<close>; the result is the scaled feature rows.\<close>

definition prepare_features ::
  "engine \<Rightarrow> predictor \<Rightarrow> bar list \<Rightarrow> string \<Rightarrow> bool \<Rightarrow> (error + real list list) \<times> predictor" where
  "prepare_features eng s df ticker fit_scaler =
    (case feature_frame eng (prediction_days s) df of
       (cols, X) \<Rightarrow>
         if X = [] then (Inl (ValueError (''No valid data for '' @ ticker)), s)
         else
           (let s1 = s\<lparr>feature_cols := cols\<rparr> in
            if fit_scaler then
              (let sc = fit_standard_scaler eng X;
                   s2 = s1\<lparr>scalers := fmupd ticker sc (scalers s1)\<rparr>
               in (transform sc X, s2))
            else
              (case fmlookup (scalers s1) ticker of
                 None \<Rightarrow> (Inl (ValueError (''No scaler for '' @ ticker @ ''. Train first.'')), s1)
               | Some sc \<Rightarrow> (transform sc X, s1))))"

text \<open>
  The spread of the three forecasts and the agreement reported from it
  (\<^verbatim>\<open>predict\<close>, the lines after the ensemble vote and the last entry of the record).
\<close>

definition ensemble_spread :: "real \<Rightarrow> real \<Rightarrow> real \<Rightarrow> real option" where
  "ensemble_spread lstm_pred lgb_pred xgb_pred =
    (let pred_mean = (lstm_pred + lgb_pred + xgb_pred) / 3
     in np_divide (max lstm_pred (max lgb_pred xgb_pred) - min lstm_pred (min lgb_pred xgb_pred))
          (pred_mean + 1 / 10 ^ 10))"

definition ensemble_agreement :: "real \<Rightarrow> real" where
  "ensemble_agreement spread = py_round (100 * (1 - min spread 1)) 2"

text \<open>\<^verbatim>\<open>HybridEnsemblePredictor.predict\<close>.\<close>

definition predict :: "engine \<Rightarrow> predictor \<Rightarrow> string \<Rightarrow> (error + prediction returned) \<times> predictor" where
  "predict eng s ticker =
    (case fmlookup (models s) ticker of
       None \<Rightarrow> (Inl (ValueError (''No ensemble for '' @ ticker)), s)
     | Some ens \<Rightarrow>
    (case fmlookup (data_dict s) ticker of
       None \<Rightarrow> (Inl (ValueError (''No data for '' @ ticker)), s)
     | Some df \<Rightarrow>
    if df = [] then (Inl (IndexError ''single positional indexer is out-of-bounds''), s)
    else
    (let current_price = Close (last df);
         current_date = Date (last df);
         lstm_prices = map Close (tail (lstm_sequence_length s) df)
     in
    (case fmlookup (lstm_scalers s) ticker of
       None \<Rightarrow> (Inl (KeyError ticker), s)
     | Some lsc \<Rightarrow>
    (let lstm_prices_scaled = map (mm_transform lsc) lstm_prices in
    if length lstm_prices_scaled \<noteq> lstm_sequence_length s
    then (Inl (ValueError (''cannot reshape array of size '' @ show_nat (length lstm_prices_scaled)
                  @ '' into shape (1,'' @ show_nat (lstm_sequence_length s) @ '',1)'')), s)
    else
    (case lstm ens lstm_prices_scaled of
       Inl e \<Rightarrow> (Inl e, s)
     | Inr lstm_pred_scaled \<Rightarrow>
    (let lstm_pred = mm_inverse_transform lsc lstm_pred_scaled in
    (case prepare_features eng s df ticker False of
       (Inl e, s') \<Rightarrow> (Inl e, s')
     | (Inr df_prepared, s') \<Rightarrow>
    if df_prepared = []
    then (Inl (IndexError ''index 0 is out of bounds for axis 0 with size 0''), s')
    else
    (let latest_features = last df_prepared in
    (case lgb ens latest_features of
       Inl e \<Rightarrow> (Inl e, s')
     | Inr lgb_pred \<Rightarrow>
    (case xgb ens latest_features of
       Inl e \<Rightarrow> (Inl e, s')
     | Inr xgb_pred \<Rightarrow>
    (let weights = ensemble_weights ens in
    (case list_item weights 0 of Inl e \<Rightarrow> (Inl e, s') | Inr w0 \<Rightarrow>
    (case list_item weights 1 of Inl e \<Rightarrow> (Inl e, s') | Inr w1 \<Rightarrow>
    (case list_item weights 2 of Inl e \<Rightarrow> (Inl e, s') | Inr w2 \<Rightarrow>
    (let ensemble_pred = w0 * lstm_pred + w1 * lgb_pred + w2 * xgb_pred in
    (case py_divide (ensemble_pred - current_price) current_price of
       Inl e \<Rightarrow> (Inl e, s')
     | Inr q \<Rightarrow>
    (let predicted_return = q * 100 in
    (case ensemble_spread lstm_pred lgb_pred xgb_pred of
       None \<Rightarrow> (Inr NonFinite, s')
     | Some spread \<Rightarrow>
    (let row = latest_row eng df;
         rsi = RSI_14 row;
         volatility = Volatility_20 row;
         regime = Regime row;
         conf = calculate_confidence_ensemble ticker predicted_return volatility rsi regime
                  spread (metrics ens);
         sig = generate_signal predicted_return conf rsi volatility regime
     in
      (Inr (Finite
        \<lparr>p_ticker = ticker,
         p_current_price = py_round current_price 2,
         p_predicted_price = py_round ensemble_pred 2,
         p_predicted_return = py_round predicted_return 2,
         p_prediction_horizon_days = prediction_days s',
         p_current_date = current_date,
         p_prediction_date = current_date + int (prediction_days s'),
         p_signal = action sig,
         p_confidence = py_round (confidence sig) 2,
         p_reasoning = reasoning sig,
         p_technical_indicators =
           \<lparr>rsi_14 = py_round rsi 2,
            volatility_pct = py_round (volatility * 100) 2,
            macd_diff = py_round (MACD_Diff row) 2,
            bb_position = py_round (BB_20_Position row) 2,
            market_regime = regime,
            adx = py_round (ADX row) 2\<rparr>,
         p_model_predictions =
           \<lparr>mp_lstm = py_round lstm_pred 2,
            mp_lightgbm = py_round lgb_pred 2,
            mp_xgboost = py_round xgb_pred 2,
            mp_ensemble = py_round ensemble_pred 2\<rparr>,
         p_model_metrics =
           \<lparr>mm_lstm_r2 = py_round (dict_get (metrics ens) ''lstm_r2'' 0.15) 4,
            mm_lgb_r2 = py_round (dict_get (metrics ens) ''lgb_r2'' 0.18) 4,
            mm_xgb_r2 = py_round (dict_get (metrics ens) ''xgb_r2'' 0.17) 4,
            mm_lgb_mae = py_round (dict_get (metrics ens) ''lgb_mae'' 0) 2,
            mm_xgb_mae = py_round (dict_get (metrics ens) ''xgb_mae'' 0) 2\<rparr>,
         p_ensemble_agreement = ensemble_agreement spread\<rparr>),
       s')))))))))))))))))))))"

subsection \<open>The tabular-only predictor\<close>

text \<open>
  \<^verbatim>\<open>KSEStockPredictor\<close> has one tree model per ticker. Its indicator engine has the same
  text as the ensemble's; \<^verbatim>\<open>predict\<close> reads one more column of the last row,
  \<^verbatim>\<open>RSI_5\<close>, and the \<^verbatim>\<open>Date\<close> column of the prepared table. A bundle's
  \<^verbatim>\<open>feature_importance\<close> is never read by \<^verbatim>\<open>predict\<close> and is left out.
\<close>

record tabular_row =
  t_RSI_14 :: real
  t_RSI_5 :: real
  t_Volatility_20 :: real
  t_Regime :: string
  t_MACD_Diff :: real
  t_BB_20_Position :: real
  t_ADX :: real

record tabular_engine =
  t_latest_row :: "bar list \<Rightarrow> tabular_row"
  t_feature_frame :: "nat \<Rightarrow> bar list \<Rightarrow> string list \<times> int list \<times> real list list"
  t_fit_standard_scaler :: "real list list \<Rightarrow> standard_scaler"

record tabular_bundle =
  model :: "real list \<Rightarrow> error + real"
  bundle_metrics :: "string \<rightharpoonup> real"

record tabular_predictor =
  t_prediction_days :: nat
  t_models :: "(string, tabular_bundle) fmap"
  t_feature_cols :: "string list"
  t_data_dict :: "(string, bar list) fmap"
  t_scalers :: "(string, standard_scaler) fmap"

record tabular_indicators =
  ti_rsi_14 :: real
  ti_rsi_5 :: real
  ti_volatility :: real
  ti_macd_diff :: real
  ti_bb_position :: real
  ti_market_regime :: string
  ti_adx :: real

record tabular_prediction =
  tp_ticker :: string
  tp_current_price :: real
  tp_predicted_price :: real
  tp_predicted_return :: real
  tp_prediction_horizon_days :: nat
  tp_current_date :: int
  tp_prediction_date :: int
  tp_signal :: string
  tp_confidence :: real
  tp_reasoning :: "reason list"
  tp_technical_indicators :: tabular_indicators
  tp_model_metrics :: "string \<rightharpoonup> real"

text \<open>
  \<^verbatim>\<open>KSEStockPredictor.prepare_features\<close>; the result is the \<^verbatim>\<open>Date\<close> column and the
  scaled feature rows of the prepared table.
\<close>

definition prepare_features_tabular ::
  "tabular_engine \<Rightarrow> tabular_predictor \<Rightarrow> bar list \<Rightarrow> string \<Rightarrow> bool
     \<Rightarrow> (error + int list \<times> real list list) \<times> tabular_predictor" where
  "prepare_features_tabular eng s df ticker fit_scaler =
    (case t_feature_frame eng (t_prediction_days s) df of
       (cols, dates, X) \<Rightarrow>
         if X = [] then (Inl (ValueError (''No valid data for '' @ ticker)), s)
         else
           (let s1 = s\<lparr>t_feature_cols := cols\<rparr> in
            if fit_scaler then
              (let sc = t_fit_standard_scaler eng X;
                   s2 = s1\<lparr>t_scalers := fmupd ticker sc (t_scalers s1)\<rparr>
               in (map_sum id (Pair dates) (transform sc X), s2))
            else
              (case fmlookup (t_scalers s1) ticker of
                 None \<Rightarrow> (Inl (ValueError (''No scaler for '' @ ticker @ ''. Train first.'')), s1)
               | Some sc \<Rightarrow> (map_sum id (Pair dates) (transform sc X), s1))))"

text \<open>
  \<^verbatim>\<open>KSEStockPredictor.predict\<close>. The return is computed on NumPy floats, so a current
  price of zero raises nothing and the figures are not finite; the dictionary lookups of
  \<^verbatim>\<open>calculate_confidence\<close> still run and can raise, whatever the return is.
\<close>

definition predict_tabular ::
  "tabular_engine \<Rightarrow> tabular_predictor \<Rightarrow> string
     \<Rightarrow> (error + tabular_prediction returned) \<times> tabular_predictor" where
  "predict_tabular eng s ticker =
    (case fmlookup (t_models s) ticker of
       None \<Rightarrow> (Inl (ValueError (''No model for '' @ ticker)), s)
     | Some bundle \<Rightarrow>
    (case fmlookup (t_data_dict s) ticker of
       None \<Rightarrow> (Inl (ValueError (''No data for '' @ ticker)), s)
     | Some df \<Rightarrow>
    (case prepare_features_tabular eng s df ticker False of
       (Inl e, s') \<Rightarrow> (Inl e, s')
     | (Inr (dates, df_prepared), s') \<Rightarrow>
    if df = [] then (Inl (IndexError ''single positional indexer is out-of-bounds''), s')
    else
    (let current_price = Close (last df) in
    if dates = [] then (Inl (IndexError ''single positional indexer is out-of-bounds''), s')
    else
    (let current_date = last dates in
    if df_prepared = []
    then (Inl (IndexError ''index 0 is out of bounds for axis 0 with size 0''), s')
    else
    (case model bundle (last df_prepared) of
       Inl e \<Rightarrow> (Inl e, s')
     | Inr predicted_price \<Rightarrow>
    (let row = t_latest_row eng df;
         rsi = t_RSI_14 row;
         volatility = t_Volatility_20 row;
         regime = t_Regime row;
         model_metrics = (\<lambda>k. map_option bundle_metrics (fmlookup (t_models s') k))
     in
    (case np_divide (predicted_price - current_price) current_price of
       None \<Rightarrow>
         (case calculate_confidence model_metrics ticker 0 volatility rsi regime of
            Inl e \<Rightarrow> (Inl e, s')
          | Inr c \<Rightarrow> (Inr NonFinite, s'))
     | Some q \<Rightarrow>
    (let predicted_return = q * 100 in
    (case calculate_confidence model_metrics ticker predicted_return volatility rsi regime of
       Inl e \<Rightarrow> (Inl e, s')
     | Inr conf \<Rightarrow>
    (let sig = generate_signal_tabular predicted_return conf rsi volatility regime in
      (Inr (Finite
        \<lparr>tp_ticker = ticker,
         tp_current_price = py_round current_price 2,
         tp_predicted_price = py_round predicted_price 2,
         tp_predicted_return = py_round predicted_return 2,
         tp_prediction_horizon_days = t_prediction_days s',
         tp_current_date = current_date,
         tp_prediction_date = current_date + int (t_prediction_days s'),
         tp_signal = action sig,
         tp_confidence = py_round (confidence sig) 2,
         tp_reasoning = reasoning sig,
         tp_technical_indicators =
           \<lparr>ti_rsi_14 = py_round rsi 2,
            ti_rsi_5 = py_round (t_RSI_5 row) 2,
            ti_volatility = py_round (volatility * 100) 2,
            ti_macd_diff = py_round (t_MACD_Diff row) 2,
            ti_bb_position = py_round (t_BB_20_Position row) 2,
            ti_market_regime = regime,
            ti_adx = py_round (t_ADX row) 2\<rparr>,
         tp_model_metrics = bundle_metrics bundle\<rparr>),
       s'))))))))))))"

subsection \<open>Batch prediction\<close>

text \<open>
  An entry of the dictionary \<^verbatim>\<open>predict_all\<close> returns: what \<^verbatim>\<open>predict\<close> returned, or
  \<^verbatim>\<open>{'ticker': ticker, 'error': str(e)}\<close>.
\<close>

datatype 'r entry = Prediction 'r | ErrorRecord string string

definition entry_of :: "string \<Rightarrow> error + 'r \<Rightarrow> 'r entry" where
  "entry_of ticker outcome =
    (case outcome of Inr r \<Rightarrow> Prediction r | Inl e \<Rightarrow> ErrorRecord ticker (str_error e))"

text \<open>
  The loop of \<^verbatim>\<open>predict_all\<close>, which has the same text in both classes; the method
  \<^verbatim>\<open>self.predict\<close> it calls is the first argument, the sorted keys the second.
\<close>

fun predict_all_loop ::
  "('s \<Rightarrow> string \<Rightarrow> (error + 'r) \<times> 's) \<Rightarrow> string list \<Rightarrow> 's \<Rightarrow> (string \<rightharpoonup> 'r entry)
     \<Rightarrow> (string \<rightharpoonup> 'r entry) \<times> 's" where
  "predict_all_loop predict_method [] s predictions = (predictions, s)"
| "predict_all_loop predict_method (ticker # rest) s predictions =
    (case predict_method s ticker of
       (outcome, s') \<Rightarrow>
         predict_all_loop predict_method rest s' (predictions(ticker \<mapsto> entry_of ticker outcome)))"

text \<open>\<^verbatim>\<open>HybridEnsemblePredictor.predict_all\<close>.\<close>

definition predict_all :: "engine \<Rightarrow> predictor \<Rightarrow> (string \<rightharpoonup> prediction returned entry) \<times> predictor" where
  "predict_all eng s =
    predict_all_loop (predict eng) (sorted_list_of_fset (fmdom (models s))) s Map.empty"

text \<open>\<^verbatim>\<open>KSEStockPredictor.predict_all\<close>.\<close>

definition predict_all_tabular ::
  "tabular_engine \<Rightarrow> tabular_predictor
     \<Rightarrow> (string \<rightharpoonup> tabular_prediction returned entry) \<times> tabular_predictor" where
  "predict_all_tabular eng s =
    predict_all_loop (predict_tabular eng) (sorted_list_of_fset (fmdom (t_models s))) s Map.empty"

subsection \<open>Example inputs\<close>

text \<open>
  A trained ticker \<open>ABC\<close> used to run \<^verbatim>\<open>predict\<close> on concrete data: two bars closing
  at 100, a sequence length of 2, identity scalers, an LSTM that repeats the last price,
  tree models that answer 40 and 170, the stock weights, and R-squared metrics of -1.
  The indicator engine reports a volatility of 0.05 in a Bear regime.
\<close>

definition example_engine :: engine where
  "example_engine =
    \<lparr>latest_row = (\<lambda>df. \<lparr>RSI_14 = 50, Volatility_20 = 0.05, Regime = ''Bear'',
                          MACD_Diff = 0, BB_20_Position = 0.5, ADX = 20\<rparr>),
     feature_frame = (\<lambda>n df. ([''RSI_14''], map (\<lambda>b. [Close b]) df)),
     fit_standard_scaler = (\<lambda>X. \<lparr>transform = Inr\<rparr>)\<rparr>"

definition example_ensemble :: ensemble where
  "example_ensemble =
    \<lparr>lstm = (\<lambda>w. Inr (last w)), lgb = (\<lambda>f. Inr 40), xgb = (\<lambda>f. Inr 170),
     ensemble_weights = [0.35, 0.35, 0.30],
     metrics = [''lstm_r2'' \<mapsto> - 1, ''lgb_r2'' \<mapsto> - 1, ''xgb_r2'' \<mapsto> - 1]\<rparr>"

definition example_history :: "real \<Rightarrow> bar list" where
  "example_history last_close =
    [\<lparr>Date = 1, Open = 100, High = 100, Low = 100, Close = 100, Volume = 1000\<rparr>,
     \<lparr>Date = 2, Open = 100, High = 100, Low = last_close, Close = last_close, Volume = 1000\<rparr>]"

definition example_predictor_with :: "real \<Rightarrow> predictor" where
  "example_predictor_with last_close =
    \<lparr>prediction_days = 7, lstm_sequence_length = 2,
     models = fmupd ''ABC'' example_ensemble fmempty,
     feature_cols = [],
     data_dict = fmupd ''ABC'' (example_history last_close) fmempty,
     scalers = fmupd ''ABC'' \<lparr>transform = Inr\<rparr> fmempty,
     lstm_scalers = fmupd ''ABC'' \<lparr>mm_transform = (\<lambda>x. x), mm_inverse_transform = (\<lambda>x. x)\<rparr> fmempty\<rparr>"

definition example_predictor :: predictor where
  "example_predictor = example_predictor_with 100"

text \<open>
  The same predictor with a second trained ticker \<open>XYZ\<close> that has no stored history,
  so that \<^verbatim>\<open>predict\<close> raises for it.
\<close>

definition example_predictor_two :: predictor where
  "example_predictor_two =
    \<lparr>prediction_days = 7, lstm_sequence_length = 2,
     models = fmupd ''XYZ'' example_ensemble (fmupd ''ABC'' example_ensemble fmempty),
     feature_cols = [],
     data_dict = fmupd ''ABC'' (example_history 100) fmempty,
     scalers = fmupd ''ABC'' \<lparr>transform = Inr\<rparr> fmempty,
     lstm_scalers = fmupd ''ABC'' \<lparr>mm_transform = (\<lambda>x. x), mm_inverse_transform = (\<lambda>x. x)\<rparr> fmempty\<rparr>"

text \<open>
  A tabular-only predictor of the same kind: \<open>ABC\<close> with a model that answers 100 and
  metrics r2 = 0.5, mape = 3, and \<open>XYZ\<close> trained but without history.
\<close>

definition example_tabular_engine :: tabular_engine where
  "example_tabular_engine =
    \<lparr>t_latest_row = (\<lambda>df. \<lparr>t_RSI_14 = 50, t_RSI_5 = 50, t_Volatility_20 = 0.01,
                            t_Regime = ''Bull'', t_MACD_Diff = 0, t_BB_20_Position = 0.5,
                            t_ADX = 20\<rparr>),
     t_feature_frame = (\<lambda>n df. ([''RSI_14''], map Date df, map (\<lambda>b. [Close b]) df)),
     t_fit_standard_scaler = (\<lambda>X. \<lparr>transform = Inr\<rparr>)\<rparr>"

definition example_tabular_bundle :: tabular_bundle where
  "example_tabular_bundle =
    \<lparr>model = (\<lambda>f. Inr 100), bundle_metrics = [''r2'' \<mapsto> 0.5, ''mape'' \<mapsto> 3]\<rparr>"

definition example_tabular_predictor :: tabular_predictor where
  "example_tabular_predictor =
    \<lparr>t_prediction_days = 7,
     t_models = fmupd ''XYZ'' example_tabular_bundle (fmupd ''ABC'' example_tabular_bundle fmempty),
     t_feature_cols = [],
     t_data_dict = fmupd ''ABC'' (example_history 100) fmempty,
     t_scalers = fmupd ''ABC'' \<lparr>transform = Inr\<rparr> fmempty\<rparr>"



subsection \<open>Columns of floating-point values\<close>

text \<open>
  A value of a pandas float column: a number, an infinity, or NaN (which also stands for
  a missing value). Numbers are reals; overflow and the sign of a zero are not modelled,
  so a nonzero number divided by zero is the infinity with the sign of the numerator.
\<close>

datatype cell = Num real | PosInf | NegInf | NaN

fun c_neg :: "cell \<Rightarrow> cell" where
  "c_neg (Num x) = Num (- x)"
| "c_neg PosInf = NegInf"
| "c_neg NegInf = PosInf"
| "c_neg NaN = NaN"

fun c_abs :: "cell \<Rightarrow> cell" where
  "c_abs (Num x) = Num \<bar>x\<bar>"
| "c_abs PosInf = PosInf"
| "c_abs NegInf = PosInf"
| "c_abs NaN = NaN"

fun c_add :: "cell \<Rightarrow> cell \<Rightarrow> cell" where
  "c_add (Num x) (Num y) = Num (x + y)"
| "c_add NaN b = NaN"
| "c_add a NaN = NaN"
| "c_add PosInf NegInf = NaN"
| "c_add NegInf PosInf = NaN"
| "c_add PosInf b = PosInf"
| "c_add a PosInf = PosInf"
| "c_add NegInf b = NegInf"
| "c_add a NegInf = NegInf"

definition c_sub :: "cell \<Rightarrow> cell \<Rightarrow> cell" where
  "c_sub a b = c_add a (c_neg b)"

fun c_mul :: "cell \<Rightarrow> cell \<Rightarrow> cell" where
  "c_mul (Num x) (Num y) = Num (x * y)"
| "c_mul NaN b = NaN"
| "c_mul a NaN = NaN"
| "c_mul (Num x) PosInf = (if 0 < x then PosInf else if x < 0 then NegInf else NaN)"
| "c_mul (Num x) NegInf = (if 0 < x then NegInf else if x < 0 then PosInf else NaN)"
| "c_mul PosInf (Num y) = (if 0 < y then PosInf else if y < 0 then NegInf else NaN)"
| "c_mul NegInf (Num y) = (if 0 < y then NegInf else if y < 0 then PosInf else NaN)"
| "c_mul PosInf PosInf = PosInf"
| "c_mul PosInf NegInf = NegInf"
| "c_mul NegInf PosInf = NegInf"
| "c_mul NegInf NegInf = PosInf"

fun c_div :: "cell \<Rightarrow> cell \<Rightarrow> cell" where
  "c_div (Num x) (Num y) =
     (if y \<noteq> 0 then Num (x / y)
      else if 0 < x then PosInf else if x < 0 then NegInf else NaN)"
| "c_div NaN b = NaN"
| "c_div a NaN = NaN"
| "c_div (Num x) PosInf = Num 0"
| "c_div (Num x) NegInf = Num 0"
| "c_div PosInf (Num y) = (if 0 \<le> y then PosInf else NegInf)"
| "c_div NegInf (Num y) = (if 0 \<le> y then NegInf else PosInf)"
| "c_div PosInf b = NaN"
| "c_div NegInf b = NaN"

text \<open>The comparisons \<^verbatim>\<open>a > b\<close> and \<^verbatim>\<open>a < b\<close>; a comparison with NaN is false.\<close>

fun c_gt :: "cell \<Rightarrow> cell \<Rightarrow> bool" where
  "c_gt (Num x) (Num y) = (y < x)"
| "c_gt NaN b = False"
| "c_gt a NaN = False"
| "c_gt PosInf PosInf = False"
| "c_gt PosInf b = True"
| "c_gt a PosInf = False"
| "c_gt NegInf b = False"
| "c_gt a NegInf = True"

definition c_lt :: "cell \<Rightarrow> cell \<Rightarrow> bool" where
  "c_lt a b = c_gt b a"

text \<open>
  \<^verbatim>\<open>.shift(n)\<close>, \<^verbatim>\<open>.diff()\<close>, \<^verbatim>\<open>.pct_change(n)\<close> (which pandas computes as
  \<^verbatim>\<open>data / data.shift(n) - 1\<close>) and \<^verbatim>\<open>.fillna(v)\<close>.
\<close>

definition shift :: "nat \<Rightarrow> cell list \<Rightarrow> cell list" where
  "shift n xs = replicate (min n (length xs)) NaN @ take (length xs - n) xs"

definition diff :: "cell list \<Rightarrow> cell list" where
  "diff xs = map2 c_sub xs (shift 1 xs)"

definition pct_change :: "nat \<Rightarrow> cell list \<Rightarrow> cell list" where
  "pct_change n xs = map (\<lambda>q. c_sub q (Num 1)) (map2 c_div xs (shift n xs))"

definition fillna :: "real \<Rightarrow> cell list \<Rightarrow> cell list" where
  "fillna v xs = map (\<lambda>c. case c of NaN \<Rightarrow> Num v | _ \<Rightarrow> c) xs"

text \<open>\<^verbatim>\<open>df.loc[mask, column] = v\<close>.\<close>

definition loc_assign :: "bool list \<Rightarrow> 'a \<Rightarrow> 'a list \<Rightarrow> 'a list" where
  "loc_assign msk v col = map2 (\<lambda>m x. if m then v else x) msk col"

subsection \<open>The regime detector\<close>

text \<open>
  \<^verbatim>\<open>detect_market_regime\<close>, of which the result here is the \<^verbatim>\<open>Regime\<close> column of the
  returned frame. The columns \<^verbatim>\<open>Returns\<close> and \<^verbatim>\<open>Annual_Volatility\<close> are computed
  beside it and are not read for the label. The window is 252 unless the caller gives
  another, and no caller does.
\<close>

definition detect_market_regime :: "bar list \<Rightarrow> nat \<Rightarrow> string list" where
  "detect_market_regime df window =
    (let annual_return = fillna 0 (pct_change window (map Num (map Close df)));
         regime0 = replicate (length df) ''Sideways'';
         regime1 = loc_assign (map (\<lambda>a. c_gt a (Num 0.1)) annual_return) ''Bull'' regime0;
         regime2 = loc_assign (map (\<lambda>a. c_lt a (Num (- 0.1))) annual_return) ''Bear'' regime1
     in regime2)"

text \<open>The method of the same name of \<^verbatim>\<open>KSEStockPredictor\<close>, which has the same body.\<close>

definition detect_market_regime_tabular :: "bar list \<Rightarrow> nat \<Rightarrow> string list" where
  "detect_market_regime_tabular df window =
    (let annual_return = fillna 0 (pct_change window (map Num (map Close df)));
         regime0 = replicate (length df) ''Sideways'';
         regime1 = loc_assign (map (\<lambda>a. c_gt a (Num 0.1)) annual_return) ''Bull'' regime0;
         regime2 = loc_assign (map (\<lambda>a. c_lt a (Num (- 0.1))) annual_return) ''Bear'' regime1
     in regime2)"

text \<open>
  The trailing return of the specification: the relative change of the close over the
  last \<open>window\<close> rows, where there is such a row and its close is not zero.
\<close>

definition trailing_return_spec :: "real list \<Rightarrow> nat \<Rightarrow> nat \<Rightarrow> real option" where
  "trailing_return_spec closes window i =
    (if window \<le> i \<and> closes ! (i - window) \<noteq> 0
     then Some ((closes ! i - closes ! (i - window)) / closes ! (i - window))
     else None)"

text \<open>A year of bars closing at \<open>first_close\<close> followed by one bar closing at \<open>last_close\<close>.\<close>

definition example_year :: "real \<Rightarrow> real \<Rightarrow> bar list" where
  "example_year first_close last_close =
     replicate 252 \<lparr>Date = 0, Open = first_close, High = first_close, Low = first_close,
                    Close = first_close, Volume = 1000\<rparr>
     @ [\<lparr>Date = 252, Open = last_close, High = last_close, Low = last_close,
          Close = last_close, Volume = 1000\<rparr>]"

section \<open>Rounding stays within integer bounds\<close>

lemma round_half_even_ge: "of_int a \<le> x \<Longrightarrow> a \<le> round_half_even x"
proof -
  assume "of_int a \<le> x"
  then have "a \<le> \<lfloor>x\<rfloor>" by (simp add: le_floor_iff)
  moreover have "\<lfloor>x\<rfloor> \<le> round_half_even x" by (simp add: round_half_even_def Let_def)
  ultimately show ?thesis by simp
qed

lemma round_half_even_le: "x \<le> of_int b \<Longrightarrow> round_half_even x \<le> b"
proof -
  assume h: "x \<le> of_int b"
  then have fl: "\<lfloor>x\<rfloor> \<le> b" by (simp add: floor_le_iff) 
  show ?thesis
  proof (cases "\<lfloor>x\<rfloor> = b")
    case True
    then have "x = of_int b" using h of_int_floor_le [of x] by simp
    then show ?thesis by (simp add: round_half_even_def Let_def)
  next
    case False
    then have "\<lfloor>x\<rfloor> + 1 \<le> b" using fl by simp
    moreover have "round_half_even x \<le> \<lfloor>x\<rfloor> + 1" by (simp add: round_half_even_def Let_def)
    ultimately show ?thesis by simp
  qed
qed

lemma py_round_bounds:
  assumes "of_int a \<le> x" "x \<le> of_int b"
  shows "of_int a \<le> py_round x n \<and> py_round x n \<le> of_int b"
proof -
  have p: "(0::real) < 10 ^ n" by simp
  have "of_int (a * 10 ^ n) \<le> x * 10 ^ n" using assms(1) p by simp
  then have 1: "a * 10 ^ n \<le> round_half_even (x * 10 ^ n)" by (rule round_half_even_ge)
  have "x * 10 ^ n \<le> of_int (b * 10 ^ n)" using assms(2) p by simp
  then have 2: "round_half_even (x * 10 ^ n) \<le> b * 10 ^ n" by (rule round_half_even_le)
  have "of_int a * 10 ^ n \<le> (of_int (round_half_even (x * 10 ^ n)) :: real)"
    using 1 by (metis of_int_le_iff of_int_mult of_int_numeral of_int_power)
  moreover have "(of_int (round_half_even (x * 10 ^ n)) :: real) \<le> of_int b * 10 ^ n"
    using 2 by (metis of_int_le_iff of_int_mult of_int_numeral of_int_power)
  ultimately show ?thesis using p by (simp add: py_round_def pos_le_divide_eq pos_divide_le_eq)
qed

section \<open>Properties of signal generation\<close>

lemma generate_signal_buy_iff:
  "action (generate_signal pr c rsi v rg) = ''BUY'' \<longleftrightarrow>
     1.2 + v * 100 * 0.4 < pr \<and> 40 < c \<and>
     rsi < (if (1.2 + v * 100 * 0.4) * 2 < pr then 75 else 65)"
  by (simp add: generate_signal_def Let_def)

lemma generate_signal_sell_iff:
  "action (generate_signal pr c rsi v rg) = ''SELL'' \<longleftrightarrow>
     \<not> 1.2 + v * 100 * 0.4 < pr \<and> pr < - (1.2 + v * 100 * 0.4) \<and> 40 < c \<and>
     (if pr < - (1.2 + v * 100 * 0.4) * 2 then 25 else 35) < rsi"
  by (simp add: generate_signal_def Let_def)

lemma generate_signal_actions:
  "action (generate_signal pr c rsi v rg) \<in> {''BUY'', ''SELL'', ''HOLD''}"
  by (simp add: generate_signal_def Let_def)

lemma generate_signal_tabular_buy_iff:
  "action (generate_signal_tabular pr c rsi v rg) = ''BUY'' \<longleftrightarrow>
     1.2 + v * 100 * 0.4 < pr \<and> 38 < c \<and>
     rsi < (if (1.2 + v * 100 * 0.4) * 2 < pr then 75 else 65)"
  by (simp add: generate_signal_tabular_def Let_def)

lemma generate_signal_tabular_sell_iff:
  "action (generate_signal_tabular pr c rsi v rg) = ''SELL'' \<longleftrightarrow>
     \<not> 1.2 + v * 100 * 0.4 < pr \<and> pr < - (1.2 + v * 100 * 0.4) \<and> 38 < c \<and>
     (if pr < - (1.2 + v * 100 * 0.4) * 2 then 25 else 35) < rsi"
  by (simp add: generate_signal_tabular_def Let_def)

lemma generate_signal_tabular_actions:
  "action (generate_signal_tabular pr c rsi v rg) \<in> {''BUY'', ''SELL'', ''HOLD''}"
  by (simp add: generate_signal_tabular_def Let_def)

lemma generate_signal_conf_lower:
  "15 \<le> confidence (generate_signal pr c rsi v rg)"
  by (simp add: generate_signal_def Let_def)

lemma generate_signal_conf_upper:
  "c \<le> 95 \<Longrightarrow> confidence (generate_signal pr c rsi v rg) \<le> 95"
  by (simp add: generate_signal_def Let_def)

lemma generate_signal_conf_neutral:
  "\<not> 1.2 + v * 100 * 0.4 < pr \<Longrightarrow> \<not> pr < - 1.2 - v * 100 * 0.4 \<Longrightarrow>
   confidence (generate_signal pr c rsi v rg) = max 15 (0.6 * c)"
  by (simp add: generate_signal_def Let_def mult.commute)

lemma generate_signal_tabular_conf_lower:
  "15 \<le> confidence (generate_signal_tabular pr c rsi v rg)"
  by (simp add: generate_signal_tabular_def Let_def)

lemma generate_signal_tabular_conf_upper:
  "c \<le> 95 \<Longrightarrow> confidence (generate_signal_tabular pr c rsi v rg) \<le> 95"
  by (simp add: generate_signal_tabular_def Let_def)

lemma generate_signal_tabular_conf_neutral:
  "\<not> 1.2 + v * 100 * 0.4 < pr \<Longrightarrow> \<not> pr < - 1.2 - v * 100 * 0.4 \<Longrightarrow>
   confidence (generate_signal_tabular pr c rsi v rg) = max 15 (0.6 * c)"
  by (simp add: generate_signal_tabular_def Let_def mult.commute)

text \<open>
  C1 (amended). With the buy threshold \<open>1.2 + volatility * 100 * 0.4\<close>, the ensemble
  \<^verbatim>\<open>generate_signal\<close> returns BUY exactly when the predicted return exceeds the threshold,
  the confidence exceeds 40 and the RSI is below the applicable ceiling (75 when the return
  exceeds twice the threshold, 65 otherwise); it returns SELL exactly when the buy branch
  is not taken and the mirrored conditions hold (return below minus the threshold,
  confidence above 40, RSI above the floor 25 or 35); every result is BUY, SELL or HOLD,
  so every other case is HOLD. The tabular-only variant obeys the same rule with the
  confidence gate at 38 in place of 40.
\<close>

theorem generate_signal_action:
  "(action (generate_signal pr c rsi v rg) = ''BUY'' \<longleftrightarrow>
      1.2 + v * 100 * 0.4 < pr \<and> 40 < c \<and>
      rsi < (if (1.2 + v * 100 * 0.4) * 2 < pr then 75 else 65)) \<and>
   (action (generate_signal pr c rsi v rg) = ''SELL'' \<longleftrightarrow>
      \<not> 1.2 + v * 100 * 0.4 < pr \<and> pr < - (1.2 + v * 100 * 0.4) \<and> 40 < c \<and>
      (if pr < - (1.2 + v * 100 * 0.4) * 2 then 25 else 35) < rsi) \<and>
   action (generate_signal pr c rsi v rg) \<in> {''BUY'', ''SELL'', ''HOLD''} \<and>
   (action (generate_signal_tabular pr c rsi v rg) = ''BUY'' \<longleftrightarrow>
      1.2 + v * 100 * 0.4 < pr \<and> 38 < c \<and>
      rsi < (if (1.2 + v * 100 * 0.4) * 2 < pr then 75 else 65)) \<and>
   (action (generate_signal_tabular pr c rsi v rg) = ''SELL'' \<longleftrightarrow>
      \<not> 1.2 + v * 100 * 0.4 < pr \<and> pr < - (1.2 + v * 100 * 0.4) \<and> 38 < c \<and>
      (if pr < - (1.2 + v * 100 * 0.4) * 2 then 25 else 35) < rsi) \<and>
   action (generate_signal_tabular pr c rsi v rg) \<in> {''BUY'', ''SELL'', ''HOLD''}"
  by (intro conjI generate_signal_buy_iff generate_signal_sell_iff generate_signal_actions
      generate_signal_tabular_buy_iff generate_signal_tabular_sell_iff
      generate_signal_tabular_actions)

text \<open>
  The claim as written asks for confidence above 40 in both variants: the tabular-only
  variant returns BUY at confidence 39.
\<close>

theorem generate_signal_tabular_buy_at_39:
  "action (generate_signal_tabular 5 39 50 0 ''Sideways'') = ''BUY'' \<and> \<not> (40::real) < 39"
  by (simp add: generate_signal_tabular_def Let_def)

text \<open>
  C10. For an input confidence of at most 95, the confidence returned by
  \<^verbatim>\<open>generate_signal\<close> lies in [15, 95], in both variants; and on the path where neither
  threshold is crossed (the final \<^verbatim>\<open>else\<close>) it is exactly \<open>max 15 (0.6 * confidence)\<close>.
\<close>

theorem generate_signal_confidence_range:
  assumes "c \<le> 95"
  shows "15 \<le> confidence (generate_signal pr c rsi v rg) \<and>
         confidence (generate_signal pr c rsi v rg) \<le> 95 \<and>
         15 \<le> confidence (generate_signal_tabular pr c rsi v rg) \<and>
         confidence (generate_signal_tabular pr c rsi v rg) \<le> 95 \<and>
         (\<not> 1.2 + v * 100 * 0.4 < pr \<and> \<not> pr < - 1.2 - v * 100 * 0.4 \<longrightarrow>
            confidence (generate_signal pr c rsi v rg) = max 15 (0.6 * c) \<and>
            confidence (generate_signal_tabular pr c rsi v rg) = max 15 (0.6 * c))"
  using assms generate_signal_conf_lower [of pr c rsi v rg]
    generate_signal_conf_upper [of c pr rsi v rg]
    generate_signal_conf_neutral [of v pr c rsi rg]
    generate_signal_tabular_conf_lower [of pr c rsi v rg]
    generate_signal_tabular_conf_upper [of c pr rsi v rg]
    generate_signal_tabular_conf_neutral [of v pr c rsi rg]
  by blast

theorem generate_signal_confidence_range_witness:
  "(50::real) \<le> 95 \<and>
   15 \<le> confidence (generate_signal 0 50 50 0 ''Bull'') \<and>
   confidence (generate_signal 0 50 50 0 ''Bull'') \<le> 95 \<and>
   \<not> 1.2 + 0 * 100 * 0.4 < (0::real) \<and> \<not> (0::real) < - 1.2 - 0 * 100 * 0.4 \<and>
   confidence (generate_signal 0 50 50 0 ''Bull'') = max 15 (0.6 * 50) \<and>
   confidence (generate_signal_tabular 0 50 50 0 ''Bull'') = max 15 (0.6 * 50)"
proof -
  have h: "(50::real) \<le> 95" by simp
  have n: "\<not> 1.2 + 0 * 100 * 0.4 < (0::real) \<and> \<not> (0::real) < - 1.2 - 0 * 100 * 0.4" by simp
  from generate_signal_confidence_range [OF h, of 0 50 0 "''Bull''"] h n
  show ?thesis by blast
qed

section \<open>Properties of the confidence score\<close>

lemma clamp_25_95: "25 \<le> max 25 (min 95 x) \<and> max 25 (min 95 x) \<le> (95::real)"
  by simp

lemma clamp_20_95: "20 \<le> max 20 (min 95 x) \<and> max 20 (min 95 x) \<le> (95::real)"
  by simp

lemma calculate_confidence_ensemble_range:
  "25 \<le> calculate_confidence_ensemble t pr v rsi rg sp m \<and>
   calculate_confidence_ensemble t pr v rsi rg sp m \<le> 95"
  unfolding calculate_confidence_ensemble_def Let_def by (rule clamp_25_95)

lemma calculate_confidence_range:
  assumes "calculate_confidence mm t pr v rsi rg = Inr c"
  shows "20 \<le> c \<and> c \<le> 95"
proof -
  have "\<exists>x. c = max 20 (min 95 x)"
    using assms unfolding calculate_confidence_def Let_def
    by (auto split: option.splits sum.splits split del: if_split)
  then show ?thesis using clamp_20_95 by blast
qed

lemma regime_adjust_eq:
  "(if rg = ''Bull'' then x + 2 else if rg = ''Bear'' then x - 2 else x) =
     x + regime_adjustment_spec rg"
  by (simp add: regime_adjustment_spec_def)

lemma clamp_spec_eq: "max 25 (min 95 y) = clamp_spec 25 95 y"
  by (simp add: clamp_spec_def max_def min_def)

text \<open>
  C3. The ensemble confidence equals the reference definition of the specification,
  evaluated at the average of the three sub-model R-squared values (a missing metric
  counts with its default 0.15, 0.18 or 0.17).
\<close>

theorem calculate_confidence_ensemble_refines_spec:
  "calculate_confidence_ensemble ticker pr v rsi rg spread m =
     confidence_spec
       ((dict_get m ''lstm_r2'' 0.15 + dict_get m ''lgb_r2'' 0.18 + dict_get m ''xgb_r2'' 0.17) / 3)
       spread v rg"
  unfolding calculate_confidence_ensemble_def confidence_spec_def Let_def
    base_confidence_spec_def agreement_boost_spec_def volatility_penalty_spec_def
    regime_adjust_eq clamp_spec_eq
  by (simp only: add.assoc)

section \<open>Properties of prediction\<close>

lemma prepare_features_keeps:
  "prepare_features eng s df t False = (r, s') \<Longrightarrow>
   models s' = models s \<and> data_dict s' = data_dict s \<and> scalers s' = scalers s \<and>
   lstm_scalers s' = lstm_scalers s \<and> prediction_days s' = prediction_days s \<and>
   lstm_sequence_length s' = lstm_sequence_length s"
  by (auto simp: prepare_features_def Let_def split: prod.splits if_splits option.splits)

lemma prepare_features_result_cong:
  assumes "scalers s2 = scalers s1" "prediction_days s2 = prediction_days s1"
  shows "fst (prepare_features eng s2 df t False) = fst (prepare_features eng s1 df t False)"
  using assms
  by (simp add: prepare_features_def Let_def split: prod.splits option.splits)

lemma predict_keeps:
  "predict eng s t = (r, s') \<Longrightarrow>
   models s' = models s \<and> data_dict s' = data_dict s \<and> scalers s' = scalers s \<and>
   lstm_scalers s' = lstm_scalers s \<and> prediction_days s' = prediction_days s \<and>
   lstm_sequence_length s' = lstm_sequence_length s"
  unfolding predict_def Let_def
  by (auto split: prod.splits if_splits option.splits sum.splits dest!: prepare_features_keeps)

lemma predict_result_cong:
  assumes "models s2 = models s1" "data_dict s2 = data_dict s1" "scalers s2 = scalers s1"
    "lstm_scalers s2 = lstm_scalers s1" "prediction_days s2 = prediction_days s1"
    "lstm_sequence_length s2 = lstm_sequence_length s1"
  shows "fst (predict eng s2 t) = fst (predict eng s1 t)"
proof -
  have pf: "\<And>df. \<exists>r a b. prepare_features eng s1 df t False = (r, a) \<and>
              prepare_features eng s2 df t False = (r, b) \<and>
              prediction_days a = prediction_days s1 \<and> prediction_days b = prediction_days s1"
  proof -
    fix df
    obtain r a where 1: "prepare_features eng s1 df t False = (r, a)" by (cases "prepare_features eng s1 df t False")
    obtain r' b where 2: "prepare_features eng s2 df t False = (r', b)" by (cases "prepare_features eng s2 df t False")
    have "r' = r" using prepare_features_result_cong [OF assms(3) assms(5), of eng df t] 1 2 by simp
    moreover have "prediction_days a = prediction_days s1" using prepare_features_keeps [OF 1] by simp
    moreover have "prediction_days b = prediction_days s1" using prepare_features_keeps [OF 2] assms by simp
    ultimately show "\<exists>r a b. prepare_features eng s1 df t False = (r, a) \<and>
              prepare_features eng s2 df t False = (r, b) \<and>
              prediction_days a = prediction_days s1 \<and> prediction_days b = prediction_days s1"
      using 1 2 by blast
  qed
  show ?thesis
  proof (cases "fmlookup (models s1) t")
    case None
    then show ?thesis using assms by (simp add: predict_def)
  next
    case (Some ens)
    show ?thesis
    proof (cases "fmlookup (data_dict s1) t")
      case None
      then show ?thesis using assms Some by (simp add: predict_def)
    next
      case df: (Some df)
      obtain r a b where pfs: "prepare_features eng s1 df t False = (r, a)"
          "prepare_features eng s2 df t False = (r, b)"
          "prediction_days a = prediction_days s1" "prediction_days b = prediction_days s1"
        using pf [of df] by blast
      show ?thesis
        unfolding predict_def Let_def
        using assms Some df pfs
        by (simp split: option.splits sum.splits)
    qed
  qed
qed

lemma predict_again:
  "fst (predict eng (snd (predict eng s u)) t) = fst (predict eng s t)"
proof -
  obtain r s' where p: "predict eng s u = (r, s')" by (cases "predict eng s u")
  have k: "models s' = models s" "data_dict s' = data_dict s" "scalers s' = scalers s"
    "lstm_scalers s' = lstm_scalers s" "prediction_days s' = prediction_days s"
    "lstm_sequence_length s' = lstm_sequence_length s"
    using predict_keeps [OF p] by blast+
  have "fst (predict eng s' t) = fst (predict eng s t)"
    by (rule predict_result_cong [OF k])
  then show ?thesis by (simp only: p snd_conv)
qed


lemma predict_all_loop_entries:
  assumes H: "\<And>s u t. fst (p (snd (p s u)) t) = fst (p s t)"
  shows "fst (predict_all_loop p ks s m) t =
           (if t \<in> set ks then Some (entry_of t (fst (p s t))) else m t)"
proof (induction ks arbitrary: s m)
  case Nil
  then show ?case by simp
next
  case (Cons k rest)
  obtain out s' where pk: "p s k = (out, s')" by (cases "p s k")
  have same: "fst (p s' t) = fst (p s t)" using H [of s k t] by (simp only: pk snd_conv)
  have out: "out = fst (p s k)" by (simp only: pk fst_conv)
  have step: "fst (predict_all_loop p (k # rest) s m) t =
        fst (predict_all_loop p rest s' (m(k \<mapsto> entry_of k out))) t"
    using pk by simp
  have ih: "fst (predict_all_loop p rest s' (m(k \<mapsto> entry_of k out))) t =
        (if t \<in> set rest then Some (entry_of t (fst (p s' t)))
         else (m(k \<mapsto> entry_of k out)) t)"
    by (rule Cons.IH)
  show ?case
  proof (cases "t \<in> set rest")
    case True
    then show ?thesis by (simp only: step ih same if_True list.set insert_iff simp_thms)
  next
    case False
    have val: "fst (predict_all_loop p (k # rest) s m) t = (m(k \<mapsto> entry_of k out)) t"
      by (simp only: step ih False if_False)
    show ?thesis
    proof (cases "t = k")
      case True
      have rhs: "(if t \<in> set (k # rest) then Some (entry_of t (fst (p s t))) else m t) =
          Some (entry_of k (fst (p s k)))"
        using True by simp
      have lhs: "(m(k \<mapsto> entry_of k out)) t = Some (entry_of k (fst (p s k)))"
        using True out by simp
      show ?thesis by (simp only: val lhs rhs)
    next
      case neq: False
      have rhs: "(if t \<in> set (k # rest) then Some (entry_of t (fst (p s t))) else m t) = m t"
        using neq False by simp
      have lhs: "(m(k \<mapsto> entry_of k out)) t = m t"
        using neq by simp
      show ?thesis by (simp only: val lhs rhs)
    qed
  qed
qed

lemma predict_all_loop_dom:
  "dom (fst (predict_all_loop p ks s m)) = dom m \<union> set ks"
proof (induction ks arbitrary: s m)
  case Nil
  then show ?case by simp
next
  case (Cons k rest)
  obtain out s' where pk: "p s k = (out, s')" by (cases "p s k")
  have "fst (predict_all_loop p (k # rest) s m) =
        fst (predict_all_loop p rest s' (m(k \<mapsto> entry_of k out)))"
    using pk by simp
  then have "dom (fst (predict_all_loop p (k # rest) s m)) =
        dom (m(k \<mapsto> entry_of k out)) \<union> set rest"
    by (simp only: Cons.IH)
  then show ?case by auto
qed

lemma prepare_features_tabular_keeps:
  "prepare_features_tabular eng s df t False = (r, s') \<Longrightarrow>
   t_models s' = t_models s \<and> t_data_dict s' = t_data_dict s \<and> t_scalers s' = t_scalers s \<and>
   t_prediction_days s' = t_prediction_days s"
  by (auto simp: prepare_features_tabular_def Let_def split: prod.splits if_splits option.splits)

lemma prepare_features_tabular_result_cong:
  assumes "t_scalers s2 = t_scalers s1" "t_prediction_days s2 = t_prediction_days s1"
  shows "fst (prepare_features_tabular eng s2 df t False) =
         fst (prepare_features_tabular eng s1 df t False)"
  using assms
  by (simp add: prepare_features_tabular_def Let_def split: prod.splits option.splits)

lemma predict_tabular_keeps:
  "predict_tabular eng s t = (r, s') \<Longrightarrow>
   t_models s' = t_models s \<and> t_data_dict s' = t_data_dict s \<and> t_scalers s' = t_scalers s \<and>
   t_prediction_days s' = t_prediction_days s"
  unfolding predict_tabular_def Let_def
  by (auto split: prod.splits if_splits option.splits sum.splits
      dest!: prepare_features_tabular_keeps)

lemma predict_tabular_result_cong:
  assumes "t_models s2 = t_models s1" "t_data_dict s2 = t_data_dict s1"
    "t_scalers s2 = t_scalers s1" "t_prediction_days s2 = t_prediction_days s1"
  shows "fst (predict_tabular eng s2 t) = fst (predict_tabular eng s1 t)"
proof (cases "fmlookup (t_models s1) t")
  case None
  then show ?thesis using assms by (simp add: predict_tabular_def)
next
  case (Some bnd)
  show ?thesis
  proof (cases "fmlookup (t_data_dict s1) t")
    case None
    then show ?thesis using assms Some by (simp add: predict_tabular_def)
  next
    case df: (Some df)
    obtain r a where 1: "prepare_features_tabular eng s1 df t False = (r, a)"
      by (cases "prepare_features_tabular eng s1 df t False")
    obtain r' b where 2: "prepare_features_tabular eng s2 df t False = (r', b)"
      by (cases "prepare_features_tabular eng s2 df t False")
    have same: "r' = r"
      using prepare_features_tabular_result_cong [OF assms(3) assms(4), of eng df t] 1 2
      by simp
    have ka: "t_prediction_days a = t_prediction_days s1" "t_models a = t_models s1"
      using prepare_features_tabular_keeps [OF 1] by simp_all
    have kb: "t_prediction_days b = t_prediction_days s1" "t_models b = t_models s1"
      using prepare_features_tabular_keeps [OF 2] assms by simp_all
    show ?thesis
      unfolding predict_tabular_def Let_def
      using assms Some df 1 2 same ka kb
      by (simp split: option.splits sum.splits prod.splits)
  qed
qed

lemma predict_tabular_again:
  "fst (predict_tabular eng (snd (predict_tabular eng s u)) t) = fst (predict_tabular eng s t)"
proof -
  obtain r s' where p: "predict_tabular eng s u = (r, s')" by (cases "predict_tabular eng s u")
  have k: "t_models s' = t_models s" "t_data_dict s' = t_data_dict s"
    "t_scalers s' = t_scalers s" "t_prediction_days s' = t_prediction_days s"
    using predict_tabular_keeps [OF p] by blast+
  have "fst (predict_tabular eng s' t) = fst (predict_tabular eng s t)"
    by (rule predict_tabular_result_cong [OF k])
  then show ?thesis by (simp only: p snd_conv)
qed

lemma predict_all_lookup:
  "fst (predict_all eng s) t =
     (if t |\<in>| fmdom (models s) then Some (entry_of t (fst (predict eng s t))) else None)"
proof -
  have "fst (predict_all_loop (predict eng) (sorted_list_of_fset (fmdom (models s))) s Map.empty) t =
      (if t \<in> set (sorted_list_of_fset (fmdom (models s)))
       then Some (entry_of t (fst (predict eng s t))) else Map.empty t)"
    by (rule predict_all_loop_entries [of "predict eng", OF predict_again])
  then show ?thesis unfolding predict_all_def by simp
qed

lemma predict_all_tabular_lookup:
  "fst (predict_all_tabular eng s) t =
     (if t |\<in>| fmdom (t_models s) then Some (entry_of t (fst (predict_tabular eng s t)))
      else None)"
proof -
  have "fst (predict_all_loop (predict_tabular eng) (sorted_list_of_fset (fmdom (t_models s))) s
          Map.empty) t =
      (if t \<in> set (sorted_list_of_fset (fmdom (t_models s)))
       then Some (entry_of t (fst (predict_tabular eng s t))) else Map.empty t)"
    by (rule predict_all_loop_entries [of "predict_tabular eng", OF predict_tabular_again])
  then show ?thesis unfolding predict_all_tabular_def by simp
qed

text \<open>
  C9. In both classes \<^verbatim>\<open>predict_all\<close> returns a dictionary whose keys are exactly the
  trained tickers. The entry of a trained ticker is the record \<^verbatim>\<open>predict\<close> returns for
  it on the predictor as it was before the batch, or, when \<^verbatim>\<open>predict\<close> raises there,
  the error record holding the ticker and \<^verbatim>\<open>str(e)\<close>; so a failure changes no other
  entry, and the batch always ends with a dictionary.
\<close>

theorem predict_all_entries:
  "fst (predict_all eng s) t =
     (if t |\<in>| fmdom (models s)
      then Some (case fst (predict eng s t) of
                   Inr r \<Rightarrow> Prediction r
                 | Inl e \<Rightarrow> ErrorRecord t (str_error e))
      else None) \<and>
   fst (predict_all_tabular teng ts) t =
     (if t |\<in>| fmdom (t_models ts)
      then Some (case fst (predict_tabular teng ts t) of
                   Inr r \<Rightarrow> Prediction r
                 | Inl e \<Rightarrow> ErrorRecord t (str_error e))
      else None) \<and>
   dom (fst (predict_all eng s)) = fset (fmdom (models s)) \<and>
   dom (fst (predict_all_tabular teng ts)) = fset (fmdom (t_models ts))"
proof (intro conjI)
  show "fst (predict_all eng s) t =
     (if t |\<in>| fmdom (models s)
      then Some (case fst (predict eng s t) of
                   Inr r \<Rightarrow> Prediction r
                 | Inl e \<Rightarrow> ErrorRecord t (str_error e))
      else None)"
    by (simp only: predict_all_lookup entry_of_def)
  show "fst (predict_all_tabular teng ts) t =
     (if t |\<in>| fmdom (t_models ts)
      then Some (case fst (predict_tabular teng ts t) of
                   Inr r \<Rightarrow> Prediction r
                 | Inl e \<Rightarrow> ErrorRecord t (str_error e))
      else None)"
    by (simp only: predict_all_tabular_lookup entry_of_def)
  show "dom (fst (predict_all eng s)) = fset (fmdom (models s))"
    unfolding predict_all_def by (simp add: predict_all_loop_dom)
  show "dom (fst (predict_all_tabular teng ts)) = fset (fmdom (t_models ts))"
    unfolding predict_all_tabular_def by (simp add: predict_all_loop_dom)
qed

text \<open>
  C7. A second call of \<^verbatim>\<open>predict\<close> for the same ticker, on the predictor the first
  call left behind, returns the same outcome; and a call leaves the scalers of both
  kinds, the model bundles and the stored history as they were. The sub-models and
  scalers are the functions their inference methods compute.
\<close>

theorem predict_idempotent:
  "fst (predict eng (snd (predict eng s t)) t) = fst (predict eng s t) \<and>
   scalers (snd (predict eng s t)) = scalers s \<and>
   lstm_scalers (snd (predict eng s t)) = lstm_scalers s \<and>
   models (snd (predict eng s t)) = models s \<and>
   data_dict (snd (predict eng s t)) = data_dict s"
proof -
  obtain r s' where p: "predict eng s t = (r, s')" by (cases "predict eng s t")
  have k: "models s' = models s" "data_dict s' = data_dict s" "scalers s' = scalers s"
    "lstm_scalers s' = lstm_scalers s"
    using predict_keeps [OF p] by blast+
  show ?thesis using predict_again [of eng s t t] k by (simp only: p snd_conv simp_thms)
qed

section \<open>Running the example predictor\<close>

lemma ex_fields:
  "models (example_predictor_with c) = fmupd ''ABC'' example_ensemble fmempty"
  "data_dict (example_predictor_with c) = fmupd ''ABC'' (example_history c) fmempty"
  "lstm_scalers (example_predictor_with c) =
     fmupd ''ABC'' \<lparr>mm_transform = (\<lambda>x. x), mm_inverse_transform = (\<lambda>x. x)\<rparr> fmempty"
  "lstm_sequence_length (example_predictor_with c) = 2"
  "prediction_days (example_predictor_with c) = 7"
  by (simp_all add: example_predictor_with_def)

lemma ex_frame:
  "prepare_features example_engine (example_predictor_with c) (example_history c) ''ABC'' False
   = (Inr [[100], [c]], (example_predictor_with c)\<lparr>feature_cols := [''RSI_14'']\<rparr>)"
  by (simp add: prepare_features_def example_engine_def example_predictor_with_def
      example_history_def)

lemma ex_hist:
  "example_history c \<noteq> []"
  "Close (last (example_history c)) = c"
  "Date (last (example_history c)) = 2"
  "map Close (tail 2 (example_history c)) = [100, c]"
  by (simp_all add: example_history_def tail_def)

lemma ex_row:
  "latest_row example_engine df =
    \<lparr>RSI_14 = 50, Volatility_20 = 0.05, Regime = ''Bear'',
     MACD_Diff = 0, BB_20_Position = 0.5, ADX = 20\<rparr>"
  by (simp add: example_engine_def)

lemma ex_ens_fields:
  "lstm example_ensemble w = Inr (last w)"
  "lgb example_ensemble f = Inr 40"
  "xgb example_ensemble f = Inr 170"
  "ensemble_weights example_ensemble = [0.35, 0.35, 0.30]"
  "metrics example_ensemble = [''lstm_r2'' \<mapsto> - 1, ''lgb_r2'' \<mapsto> - 1, ''xgb_r2'' \<mapsto> - 1]"
  by (simp_all add: example_ensemble_def)

lemma ex_spread: "ensemble_spread 100 40 170 = Some (130 / (310 / 3 + 1 / 10 ^ 10))"
  by (simp add: ensemble_spread_def np_divide_def Let_def)

lemma ex_cce:
  "1 \<le> sp \<Longrightarrow> calculate_confidence_ensemble t 0 (1 / 20) 50 ''Bear'' sp
     [''lstm_r2'' \<mapsto> - 1, ''lgb_r2'' \<mapsto> - 1, ''xgb_r2'' \<mapsto> - 1] = 25"
  by (simp add: calculate_confidence_ensemble_def dict_get_def Let_def)

lemma ex_signal:
  "generate_signal 0 25 50 (1 / 20) ''Bear'' =
    \<lparr>action = ''HOLD'', confidence = 15,
     reasoning = [Neutral 0, Bear_regime_wait_for_bounces]\<rparr>"
  by (simp add: generate_signal_def Let_def)

lemma py_round_15: "py_round 15 2 = 15"
  by (simp add: py_round_def round_half_even_def Let_def)

text \<open>
  C5. The return of the ensemble forecast is computed as
  \<^verbatim>\<open>(ensemble_pred - current_price) / current_price\<close> on Python floats, with no epsilon
  in the denominator: on the example history ending in a close of 0, \<^verbatim>\<open>predict\<close>
  raises \<^verbatim>\<open>ZeroDivisionError\<close>.
\<close>

theorem predict_zero_close_raises:
  "fst (predict example_engine (example_predictor_with 0) ''ABC'') = Inl ZeroDivisionError"
  by (simp add: predict_def ex_fields ex_frame ex_hist Let_def list_item_def py_divide_def
      ex_ens_fields)

text \<open>
  The confidence reported in the record is the one \<^verbatim>\<open>generate_signal\<close> returns, rounded:
  on the example predictor the confidence stage gives 25, the neutral path damps it to
  15, and the record reports 15.
\<close>

theorem predict_confidence_below_25:
  "map_sum id (map_returned p_confidence)
     (fst (predict example_engine example_predictor ''ABC'')) = Inr (Finite 15) \<and>
   \<not> (25::real) \<le> 15"
  by (simp add: example_predictor_def predict_def ex_fields ex_frame ex_hist ex_row Let_def
      list_item_def py_divide_def ex_ens_fields ex_spread ex_cce ex_signal py_round_15)

section \<open>Running a batch with a failing ticker\<close>

lemma ex2_fields:
  "models example_predictor_two =
     fmupd ''XYZ'' example_ensemble (fmupd ''ABC'' example_ensemble fmempty)"
  "data_dict example_predictor_two = fmupd ''ABC'' (example_history 100) fmempty"
  "lstm_scalers example_predictor_two =
     fmupd ''ABC'' \<lparr>mm_transform = (\<lambda>x. x), mm_inverse_transform = (\<lambda>x. x)\<rparr> fmempty"
  "lstm_sequence_length example_predictor_two = 2"
  "prediction_days example_predictor_two = 7"
  by (simp_all add: example_predictor_two_def)

lemma ex2_frame:
  "prepare_features example_engine example_predictor_two (example_history 100) ''ABC'' False
   = (Inr [[100], [100]], example_predictor_two\<lparr>feature_cols := [''RSI_14'']\<rparr>)"
  by (simp add: prepare_features_def example_engine_def example_predictor_two_def
      example_history_def)

lemma ex2_fails:
  "fst (predict example_engine example_predictor_two ''XYZ'') =
     Inl (ValueError ''No data for XYZ'')"
  by (simp add: predict_def ex2_fields)

lemma ex2_succeeds:
  "map_sum id (map_returned p_signal)
     (fst (predict example_engine example_predictor_two ''ABC'')) = Inr (Finite ''HOLD'')"
  by (simp add: predict_def ex2_fields ex2_frame ex_hist ex_row Let_def
      list_item_def py_divide_def ex_ens_fields ex_spread ex_cce ex_signal)

lemma ext_fields:
  "t_models example_tabular_predictor =
     fmupd ''XYZ'' example_tabular_bundle (fmupd ''ABC'' example_tabular_bundle fmempty)"
  "t_data_dict example_tabular_predictor = fmupd ''ABC'' (example_history 100) fmempty"
  "t_prediction_days example_tabular_predictor = 7"
  by (simp_all add: example_tabular_predictor_def)

lemma ext_frame:
  "prepare_features_tabular example_tabular_engine example_tabular_predictor
     (example_history 100) ''ABC'' False
   = (Inr ([1, 2], [[100], [100]]),
      example_tabular_predictor\<lparr>t_feature_cols := [''RSI_14'']\<rparr>)"
  by (simp add: prepare_features_tabular_def example_tabular_engine_def
      example_tabular_predictor_def example_history_def)

lemma ext_row:
  "t_latest_row example_tabular_engine df =
    \<lparr>t_RSI_14 = 50, t_RSI_5 = 50, t_Volatility_20 = 0.01, t_Regime = ''Bull'',
     t_MACD_Diff = 0, t_BB_20_Position = 0.5, t_ADX = 20\<rparr>"
  by (simp add: example_tabular_engine_def)

lemma ext_bundle:
  "model example_tabular_bundle f = Inr 100"
  "bundle_metrics example_tabular_bundle = [''r2'' \<mapsto> 0.5, ''mape'' \<mapsto> 3]"
  by (simp_all add: example_tabular_bundle_def)

lemma ext_conf:
  "mm ''ABC'' = Some [''r2'' \<mapsto> 1 / 2, ''mape'' \<mapsto> 3] \<Longrightarrow>
   calculate_confidence mm ''ABC'' 0 (1 / 100) 50 ''Bull'' = Inr 95"
  by (simp add: calculate_confidence_def dict_item_def Let_def)

lemma ext_signal:
  "generate_signal_tabular 0 95 50 (1 / 100) ''Bull'' =
    \<lparr>action = ''HOLD'', confidence = 57,
     reasoning = [Neutral 0, Bull_regime_wait_for_dips]\<rparr>"
  by (simp add: generate_signal_tabular_def Let_def)

lemma ext_fails:
  "fst (predict_tabular example_tabular_engine example_tabular_predictor ''XYZ'') =
     Inl (ValueError ''No data for XYZ'')"
  by (simp add: predict_tabular_def ext_fields)

lemma ext_succeeds:
  "map_sum id (map_returned tp_signal)
     (fst (predict_tabular example_tabular_engine example_tabular_predictor ''ABC'')) =
   Inr (Finite ''HOLD'')"
  by (simp add: predict_tabular_def ext_fields ext_frame ex_hist ext_row ext_bundle Let_def
      np_divide_def ext_conf ext_signal)

text \<open>
  The batch on the two-ticker example, in both classes: \<^verbatim>\<open>XYZ\<close> is trained but has no
  stored history, so its entry is the error record with the text of the
  \<^verbatim>\<open>ValueError\<close>; \<^verbatim>\<open>ABC\<close>, which comes first, still gets its prediction; a ticker
  that was never trained has no entry.
\<close>

theorem predict_all_entries_witness:
  "fst (predict_all example_engine example_predictor_two) ''XYZ'' =
     Some (ErrorRecord ''XYZ'' ''No data for XYZ'') \<and>
   map_option (map_entry (map_returned p_signal))
     (fst (predict_all example_engine example_predictor_two) ''ABC'') =
     Some (Prediction (Finite ''HOLD'')) \<and>
   fst (predict_all example_engine example_predictor_two) ''DEF'' = None \<and>
   fst (predict_all_tabular example_tabular_engine example_tabular_predictor) ''XYZ'' =
     Some (ErrorRecord ''XYZ'' ''No data for XYZ'') \<and>
   map_option (map_entry (map_returned tp_signal))
     (fst (predict_all_tabular example_tabular_engine example_tabular_predictor) ''ABC'') =
     Some (Prediction (Finite ''HOLD'')) \<and>
   fst (predict_all_tabular example_tabular_engine example_tabular_predictor) ''DEF'' = None"
proof -
  note x = predict_all_entries [of example_engine example_predictor_two "''XYZ''"
      example_tabular_engine example_tabular_predictor]
  note a = predict_all_entries [of example_engine example_predictor_two "''ABC''"
      example_tabular_engine example_tabular_predictor]
  note d = predict_all_entries [of example_engine example_predictor_two "''DEF''"
      example_tabular_engine example_tabular_predictor]
  have 1: "fst (predict_all example_engine example_predictor_two) ''XYZ'' =
     Some (ErrorRecord ''XYZ'' ''No data for XYZ'')"
    using x by (simp add: ex2_fields ex2_fails)
  have 2: "fst (predict_all_tabular example_tabular_engine example_tabular_predictor) ''XYZ'' =
     Some (ErrorRecord ''XYZ'' ''No data for XYZ'')"
    using x by (simp add: ext_fields ext_fails)
  have 3: "map_option (map_entry (map_returned p_signal))
     (fst (predict_all example_engine example_predictor_two) ''ABC'') =
     Some (Prediction (Finite ''HOLD''))"
    using a ex2_succeeds
    by (cases "fst (predict example_engine example_predictor_two ''ABC'')")
       (simp_all add: ex2_fields)
  have 4: "map_option (map_entry (map_returned tp_signal))
     (fst (predict_all_tabular example_tabular_engine example_tabular_predictor) ''ABC'') =
     Some (Prediction (Finite ''HOLD''))"
    using a ext_succeeds
    by (cases "fst (predict_tabular example_tabular_engine example_tabular_predictor ''ABC'')")
       (simp_all add: ext_fields)
  have 5: "fst (predict_all example_engine example_predictor_two) ''DEF'' = None"
    using d by (simp add: ex2_fields)
  have 6: "fst (predict_all_tabular example_tabular_engine example_tabular_predictor) ''DEF''
      = None"
    using d by (simp add: ext_fields)
  from 1 2 3 4 5 6 show ?thesis by blast
qed

section \<open>The confidence reported in the record\<close>

lemma reported_confidence_lower:
  "15 \<le> py_round (confidence (generate_signal pr c rsi v rg)) 2"
  using py_round_bounds [of 15 "confidence (generate_signal pr c rsi v rg)" 95 2]
    py_round_bounds [of 15 "confidence (generate_signal pr c rsi v rg)"
      "\<lceil>confidence (generate_signal pr c rsi v rg)\<rceil>" 2]
    generate_signal_conf_lower [of pr c rsi v rg]
  by simp

lemma reported_confidence_upper:
  "py_round (confidence (generate_signal pr
      (calculate_confidence_ensemble t pr' v' rsi' rg' sp m) rsi v rg)) 2 \<le> 95"
  using py_round_bounds [of 15 "confidence (generate_signal pr
      (calculate_confidence_ensemble t pr' v' rsi' rg' sp m) rsi v rg)" 95 2]
    generate_signal_conf_lower [of pr "calculate_confidence_ensemble t pr' v' rsi' rg' sp m" rsi v rg]
    generate_signal_conf_upper [of "calculate_confidence_ensemble t pr' v' rsi' rg' sp m" pr rsi v rg]
    calculate_confidence_ensemble_range [of t pr' v' rsi' rg' sp m]
  by simp

lemma reported_confidence_tabular_lower:
  "15 \<le> py_round (confidence (generate_signal_tabular pr c rsi v rg)) 2"
  using py_round_bounds [of 15 "confidence (generate_signal_tabular pr c rsi v rg)"
      "\<lceil>confidence (generate_signal_tabular pr c rsi v rg)\<rceil>" 2]
    generate_signal_tabular_conf_lower [of pr c rsi v rg]
  by simp

lemma reported_confidence_tabular_upper:
  "calculate_confidence mm t pr' v' rsi' rg' = Inr c \<Longrightarrow>
   py_round (confidence (generate_signal_tabular pr c rsi v rg)) 2 \<le> 95"
  using py_round_bounds [of 15 "confidence (generate_signal_tabular pr c rsi v rg)" 95 2]
    generate_signal_tabular_conf_lower [of pr c rsi v rg]
    generate_signal_tabular_conf_upper [of c pr rsi v rg]
    calculate_confidence_range [of mm t pr' v' rsi' rg' c]
  by simp

lemma predict_confidence_range:
  "case fst (predict eng s t) of
     Inr (Finite r) \<Rightarrow> 15 \<le> p_confidence r \<and> p_confidence r \<le> 95
   | _ \<Rightarrow> True"
  unfolding predict_def Let_def
  by (simp add: reported_confidence_lower reported_confidence_upper
      split: option.split sum.split prod.split)

lemma predict_tabular_confidence_range:
  "case fst (predict_tabular eng s t) of
     Inr (Finite r) \<Rightarrow> 15 \<le> tp_confidence r \<and> tp_confidence r \<le> 95
   | _ \<Rightarrow> True"
  unfolding predict_tabular_def Let_def
  by (simp add: reported_confidence_tabular_lower reported_confidence_tabular_upper
      split: option.split sum.split prod.split)

text \<open>
  C2 (amended). The confidence stage is clamped: \<^verbatim>\<open>calculate_confidence_ensemble\<close>
  returns a value in [25, 95] and the tabular-only \<^verbatim>\<open>calculate_confidence\<close>, when it
  returns, a value in [20, 95], whatever the inputs. The confidence reported in the
  prediction record is the one \<^verbatim>\<open>generate_signal\<close> makes of it, rounded to two
  decimals, and lies in [15, 95] in both classes.
\<close>

theorem reported_confidence_range:
  "25 \<le> calculate_confidence_ensemble t pr v rsi rg sp m \<and>
   calculate_confidence_ensemble t pr v rsi rg sp m \<le> 95 \<and>
   (calculate_confidence mm t pr v rsi rg = Inr c \<longrightarrow> 20 \<le> c \<and> c \<le> 95) \<and>
   (fst (predict eng s t) = Inr (Finite r) \<longrightarrow>
      15 \<le> p_confidence r \<and> p_confidence r \<le> 95) \<and>
   (fst (predict_tabular teng ts t) = Inr (Finite tr) \<longrightarrow>
      15 \<le> tp_confidence tr \<and> tp_confidence tr \<le> 95)"
proof (intro conjI impI)
  show "25 \<le> calculate_confidence_ensemble t pr v rsi rg sp m"
    using calculate_confidence_ensemble_range [of t pr v rsi rg sp m] by blast
  show "calculate_confidence_ensemble t pr v rsi rg sp m \<le> 95"
    using calculate_confidence_ensemble_range [of t pr v rsi rg sp m] by blast
next
  assume h: "calculate_confidence mm t pr v rsi rg = Inr c"
  show "20 \<le> c" using calculate_confidence_range [OF h] by blast
  show "c \<le> 95" using calculate_confidence_range [OF h] by blast
next
  assume h: "fst (predict eng s t) = Inr (Finite r)"
  have k: "15 \<le> p_confidence r \<and> p_confidence r \<le> 95"
    using predict_confidence_range [of eng s t] by (simp only: h sum.case returned.case)
  show "15 \<le> p_confidence r" using k by blast
  show "p_confidence r \<le> 95" using k by blast
next
  assume h: "fst (predict_tabular teng ts t) = Inr (Finite tr)"
  have k: "15 \<le> tp_confidence tr \<and> tp_confidence tr \<le> 95"
    using predict_tabular_confidence_range [of teng ts t]
    by (simp only: h sum.case returned.case)
  show "15 \<le> tp_confidence tr" using k by blast
  show "tp_confidence tr \<le> 95" using k by blast
qed

text \<open>
  On the example batch both classes return a record for \<^verbatim>\<open>ABC\<close>, and the tabular
  confidence stage returns 95 there.
\<close>

theorem reported_confidence_range_witness:
  "calculate_confidence [''ABC'' \<mapsto> [''r2'' \<mapsto> 1 / 2, ''mape'' \<mapsto> 3]] ''ABC'' 0 (1 / 100) 50
     ''Bull'' = Inr 95 \<and> (20::real) \<le> 95 \<and>
   25 \<le> calculate_confidence_ensemble ''ABC'' 0 (1 / 100) 50 ''Bull'' 0 Map.empty \<and>
   (\<exists>r. fst (predict example_engine example_predictor_two ''ABC'') = Inr (Finite r) \<and>
        15 \<le> p_confidence r \<and> p_confidence r \<le> 95) \<and>
   (\<exists>tr. fst (predict_tabular example_tabular_engine example_tabular_predictor ''ABC'') =
          Inr (Finite tr) \<and>
        15 \<le> tp_confidence tr \<and> tp_confidence tr \<le> 95)"
proof -
  have c: "calculate_confidence [''ABC'' \<mapsto> [''r2'' \<mapsto> 1 / 2, ''mape'' \<mapsto> 3]] ''ABC'' 0 (1 / 100)
     50 ''Bull'' = Inr 95"
    by (rule ext_conf) simp
  obtain r where r: "fst (predict example_engine example_predictor_two ''ABC'') = Inr (Finite r)"
    using ex2_succeeds
    by (cases "fst (predict example_engine example_predictor_two ''ABC'')";
        cases "projr (fst (predict example_engine example_predictor_two ''ABC''))") auto
  obtain tr where tr:
    "fst (predict_tabular example_tabular_engine example_tabular_predictor ''ABC'') =
       Inr (Finite tr)"
    using ext_succeeds
    by (cases "fst (predict_tabular example_tabular_engine example_tabular_predictor ''ABC'')";
        cases "projr (fst (predict_tabular example_tabular_engine example_tabular_predictor
          ''ABC''))") auto
  note inst = reported_confidence_range [of "''ABC''" 0 "1 / 100" 50 "''Bull''" 0 Map.empty
      "[''ABC'' \<mapsto> [''r2'' \<mapsto> 1 / 2, ''mape'' \<mapsto> 3]]" 95
      example_engine example_predictor_two r
      example_tabular_engine example_tabular_predictor tr]
  from inst c r tr show ?thesis by blast
qed

section \<open>The reported ensemble agreement\<close>


















end
